theory Spec2Isabelle
  imports
    Complex_Main
    "HOL-Library.Word"
    "HOL-Library.Char_ord"
    "HOL-Library.List_Lexorder"
    "HOL-Library.Product_Lexorder"
begin

section \<open>Numbers as the programs see them\<close>

text \<open>
  Both scripts compute with pandas columns of 64-bit floats and 64-bit integers.
  A finite double is represented by the rational number it denotes. Every
  floating-point operation is the exact operation followed by \<open>rd\<close>, rounding to
  the nearest double (53 significant bits, ties to even, subnormals below
  \<open>2 powi (-1022)\<close>). Infinities, NaN results and the sign of zero are outside
  the model; a missing value (NaN in a column) is \<open>None\<close>.
\<close>

function bitlen :: "int \<Rightarrow> int" where
  "bitlen n = (if n \<le> 0 then 0 else 1 + bitlen (n div 2))"
  by pat_completeness auto

termination
  by (relation "measure nat") auto

declare bitlen.simps [simp del]

definition ilog2 :: "rat \<Rightarrow> int" where
  \<comment> \<open>for \<open>0 < x\<close>: the exponent \<open>e\<close> with \<open>2 powi e \<le> x < 2 powi (e + 1)\<close>\<close>
  "ilog2 x = (if 1 \<le> x then bitlen \<lfloor>x\<rfloor> - 1 else - bitlen (\<lceil>1 / x\<rceil> - 1))"

definition round_half_even :: "rat \<Rightarrow> int" where
  "round_half_even x =
     (let f = \<lfloor>x\<rfloor>; r = x - of_int f
      in if r < 1 / 2 then f
         else if 1 / 2 < r then f + 1
         else if even f then f else f + 1)"

definition rd :: "rat \<Rightarrow> rat" where
  "rd x =
     (if x = 0 then 0
      else let e = max (ilog2 \<bar>x\<bar> - 52) (- 1074); u = 2 powi e
           in of_int (round_half_even (x / u)) * u)"

definition fadd :: "rat \<Rightarrow> rat \<Rightarrow> rat" where
  "fadd x y = rd (x + y)"

definition fsub :: "rat \<Rightarrow> rat \<Rightarrow> rat" where
  "fsub x y = rd (x - y)"

definition fmul :: "rat \<Rightarrow> rat \<Rightarrow> rat" where
  "fmul x y = rd (x * y)"

definition fdiv :: "rat \<Rightarrow> rat \<Rightarrow> rat" where
  "fdiv x y = rd (x / y)"

definition astype_int :: "rat \<Rightarrow> int" where
  \<comment> \<open>\<open>.astype(int)\<close> on a float column: the C conversion to int64 truncates toward
      zero; a value that does not fit yields the x86-64 indefinite value \<open>- 2 ^ 63\<close>\<close>
  "astype_int x =
     (let t = (if 0 \<le> x then \<lfloor>x\<rfloor> else \<lceil>x\<rceil>)
      in if - (2 ^ 63) \<le> t \<and> t < 2 ^ 63 then t else - (2 ^ 63))"

definition mul64 :: "int \<Rightarrow> int \<Rightarrow> int" where
  \<comment> \<open>int64 multiplication wraps silently\<close>
  "mul64 a b = sint (word_of_int a * word_of_int b :: 64 word)"

text \<open>
  A cell of a column that pandas read from CSV: an int64, a float64, or (in a
  column of dtype object) a Python \<open>str\<close>.
\<close>

datatype pyval = PyInt int | PyFloat rat | PyStr string

datatype exn =
  EmptyDataError | FileNotFoundError | ParserError | TypeError | KeyError | ValueError

fun py_mul :: "int \<Rightarrow> pyval \<Rightarrow> pyval" where
  \<comment> \<open>\<open>price_cents * quantity\<close>, element by element, \<open>price_cents\<close> an int64\<close>
  "py_mul c (PyInt q) = PyInt (mul64 c q)"
| "py_mul c (PyFloat q) = PyFloat (fmul (rd (of_int c)) q)"
| "py_mul c (PyStr s) = PyStr (concat (replicate (nat c) s))"

fun py_truediv :: "pyval \<Rightarrow> rat \<Rightarrow> exn + rat" where
  \<comment> \<open>\<open>sales_cents / 100.0\<close>, element by element\<close>
  "py_truediv (PyInt c) d = Inr (fdiv (rd (of_int c)) d)"
| "py_truediv (PyFloat x) d = Inr (fdiv x d)"
| "py_truediv (PyStr s) d = Inl TypeError"

subsection \<open>Text of numbers\<close>

definition digit_char :: "int \<Rightarrow> char" where
  "digit_char d = ''0123456789'' ! nat (d mod 10)"

function digits10 :: "int \<Rightarrow> string" where
  "digits10 n = (if n < 10 then [digit_char n] else digits10 (n div 10) @ [digit_char n])"
  by pat_completeness auto

termination
  by (relation "measure nat") auto

declare digits10.simps [simp del]

definition fixed2 :: "rat \<Rightarrow> string" where
  \<comment> \<open>the format \<open>{x:.2f}\<close>: the exact value of the double rounded to two decimals,
      ties to even\<close>
  "fixed2 x =
     (let n = round_half_even (\<bar>x\<bar> * 100)
      in (if x < 0 then ''-'' else '''') @ digits10 (n div 100) @ ''.'' @
         [digit_char (n div 10), digit_char n])"

text \<open>
  The two parsers of pandas the scripts call are library code; the programs are
  modelled over any such pair. \<open>to_numeric\<close> gives \<open>None\<close> where
  \<open>pd.to_numeric(..., errors='coerce')\<close> gives NaN, \<open>to_datetime\<close> gives \<open>None\<close>
  where \<open>pd.to_datetime\<close> raises.
\<close>

type_synonym datetime = "int \<times> int \<times> int"

record pandas =
  to_numeric :: "string \<Rightarrow> rat option"
  to_datetime :: "string \<Rightarrow> datetime option"

text \<open>
  One concrete pair, for running the programs on examples: plain decimal literals
  (an optional sign, digits, an optional point and digits) parsed to the nearest
  double, and ISO dates \<open>YYYY-MM-DD\<close>.
\<close>

definition digit_val :: "char \<Rightarrow> int option" where
  "digit_val c = (let n = (of_char c :: int) in if 48 \<le> n \<and> n \<le> 57 then Some (n - 48) else None)"

fun digits_val :: "int \<Rightarrow> string \<Rightarrow> int option" where
  "digits_val acc [] = Some acc"
| "digits_val acc (c # cs) =
     (case digit_val c of None \<Rightarrow> None | Some d \<Rightarrow> digits_val (10 * acc + d) cs)"

definition parse_decimal :: "string \<Rightarrow> rat option" where
  "parse_decimal s =
     (let ip = takeWhile (\<lambda>c. c \<noteq> CHR ''.'') s;
          rest = dropWhile (\<lambda>c. c \<noteq> CHR ''.'') s;
          fp = drop 1 rest
      in if ip @ fp = [] then None
         else case (digits_val 0 ip, digits_val 0 fp) of
                (Some i, Some f) \<Rightarrow> Some (of_int i + of_int f / 10 ^ length fp)
              | _ \<Rightarrow> None)"

definition decimal_to_double :: "string \<Rightarrow> rat option" where
  "decimal_to_double s =
     (case s of
        c # cs \<Rightarrow>
          if c = CHR ''-'' then map_option (\<lambda>x. rd (- x)) (parse_decimal cs)
          else if c = CHR ''+'' then map_option rd (parse_decimal cs)
          else map_option rd (parse_decimal s)
      | [] \<Rightarrow> None)"

fun split_on :: "char \<Rightarrow> string \<Rightarrow> string list" where
  "split_on d [] = [[]]"
| "split_on d (c # cs) =
     (if c = d then [] # split_on d cs
      else case split_on d cs of w # ws \<Rightarrow> (c # w) # ws | [] \<Rightarrow> [[c]])"

definition iso_date :: "string \<Rightarrow> datetime option" where
  "iso_date s =
     (case split_on (CHR ''-'') s of
        [y, m, d] \<Rightarrow>
          if y = [] \<or> m = [] \<or> d = [] then None
          else (case (digits_val 0 y, digits_val 0 m, digits_val 0 d) of
                  (Some a, Some b, Some c) \<Rightarrow>
                    if 1 \<le> b \<and> b \<le> 12 \<and> 1 \<le> c \<and> c \<le> 31 then Some (a, b, c) else None
                | _ \<Rightarrow> None)
      | _ \<Rightarrow> None)"

definition plain :: pandas where
  "plain = \<lparr>to_numeric = decimal_to_double, to_datetime = iso_date\<rparr>"

section \<open>Data model\<close>

record 'd keyed =
  date :: 'd
  region :: string

record row = "string keyed" +
  product :: string
  price :: "string option"
  quantity :: "pyval option"

record ('d, 'a) sale = "'d keyed" +
  sales :: 'a

record cleaned = "(datetime, string option) sale" +
  Sales_Value :: rat

record dataframe =
  columns :: "string list"
  rows :: "cleaned list"

text \<open>What \<open>pd.read_csv\<close> does with a path: it raises, or it returns a frame.\<close>

datatype 'r csv = EmptyData | NotFound | Unreadable | Frame "'r list"

record config =
  data_directory :: string
  product_filter :: string
  default_currency_symbol :: string

definition dropna :: "'a option list \<Rightarrow> 'a list" where
  "dropna col = List.map_filter id col"

definition astype_str :: "string option \<Rightarrow> string" where
  "astype_str c = (case c of None \<Rightarrow> ''nan'' | Some s \<Rightarrow> s)"

definition fillna0 :: "rat option \<Rightarrow> rat" where
  "fillna0 c = (case c of None \<Rightarrow> 0 | Some x \<Rightarrow> x)"

fun collect :: "('e + 'a) list \<Rightarrow> 'e + 'a list" where
  \<comment> \<open>a column computed element by element: the first exception ends it\<close>
  "collect [] = Inr []"
| "collect (Inl e # xs) = Inl e"
| "collect (Inr x # xs) = (case collect xs of Inl e \<Rightarrow> Inl e | Inr ys \<Rightarrow> Inr (x # ys))"

section \<open>Ingestion: \<open>task_two_clean_data.process_sales_data\<close>\<close>

definition first_valid :: "'a option list \<Rightarrow> 'a option" where
  \<comment> \<open>\<open>col.dropna().iloc[0] if not col.dropna().empty else None\<close>\<close>
  "first_valid col = (case dropna col of [] \<Rightarrow> None | x # _ \<Rightarrow> Some x)"

definition detect_symbol :: "string \<Rightarrow> string option \<Rightarrow> string \<times> nat" where
  \<comment> \<open>lines 82 to 89: the symbol and \<open>slice_start_index\<close> from \<open>first_price_string\<close>\<close>
  "detect_symbol default_symbol first_price_string =
     (case first_price_string of
        Some s \<Rightarrow> if s \<noteq> [] \<and> length s > 0 then (take 1 s, 1) else (default_symbol, 0)
      | None \<Rightarrow> (default_symbol, 0))"

definition slicing :: "config \<Rightarrow> string option \<Rightarrow> row list \<Rightarrow> string option \<times> nat" where
  \<comment> \<open>lines 76 to 95: the new \<open>currency_symbol\<close> and this file's \<open>slice_start_index\<close>\<close>
  "slicing cfg currency_symbol pink_morsel_df =
     (case currency_symbol of
        None \<Rightarrow>
          (let (symbol, k) = detect_symbol (default_currency_symbol cfg)
                               (first_valid (map price pink_morsel_df))
           in (Some symbol, k))
      | Some symbol \<Rightarrow>
          (Some symbol, if symbol \<noteq> default_currency_symbol cfg then 1 else 0))"

definition pink_morsel :: "config \<Rightarrow> row list \<Rightarrow> row list" where
  \<comment> \<open>line 67\<close>
  "pink_morsel cfg df = filter (\<lambda>r. product r = product_filter cfg) df"

definition price_cents :: "pandas \<Rightarrow> nat \<Rightarrow> string option \<Rightarrow> int" where
  \<comment> \<open>lines 98 to 107\<close>
  "price_cents pd slice_start_index p =
     (let price_clean_str = drop slice_start_index (astype_str p);
          price_numeric = fillna0 (to_numeric pd price_clean_str)
      in astype_int (fmul price_numeric 100))"

definition sales_numeric :: "pandas \<Rightarrow> nat \<Rightarrow> row \<Rightarrow> exn + rat" where
  \<comment> \<open>lines 110 to 114\<close>
  "sales_numeric pd slice_start_index r =
     (let qty = (case quantity r of None \<Rightarrow> PyInt 0 | Some q \<Rightarrow> q);
          sales_cents = py_mul (price_cents pd slice_start_index (price r)) qty
      in py_truediv sales_cents 100)"

definition summary_row :: "pandas \<Rightarrow> nat \<Rightarrow> row \<Rightarrow> exn + (string, rat) sale" where
  "summary_row pd k r =
     (case sales_numeric pd k r of
        Inl e \<Rightarrow> Inl e
      | Inr x \<Rightarrow> Inr \<lparr>date = date r, region = region r, sales = x\<rparr>)"

type_synonym state = "string option \<times> (string, rat) sale list list"

definition process_file :: "pandas \<Rightarrow> config \<Rightarrow> row csv \<Rightarrow> state \<Rightarrow> state" where
  \<comment> \<open>one turn of the loop of lines 61 to 132, on \<open>(currency_symbol, all_filtered_data)\<close>\<close>
  "process_file pd cfg file st =
     (case file of
        Frame df \<Rightarrow>
          (let pink_morsel_df = pink_morsel cfg df
           in if pink_morsel_df = [] then st
              else let sl = slicing cfg (fst st) pink_morsel_df;
                       currency_symbol = fst sl;
                       slice_start_index = snd sl
                   in case collect (map (summary_row pd slice_start_index) pink_morsel_df) of
                        Inl e \<Rightarrow> (currency_symbol, snd st)
                      | Inr summary_df \<Rightarrow> (currency_symbol, snd st @ [summary_df]))
      | _ \<Rightarrow> st)"

fun process_files :: "pandas \<Rightarrow> config \<Rightarrow> row csv list \<Rightarrow> state \<Rightarrow> state" where
  \<comment> \<open>the loop over \<open>csv_files\<close>, in the order \<open>glob\<close> lists them\<close>
  "process_files pd cfg [] st = st"
| "process_files pd cfg (file # csv_files) st =
     process_files pd cfg csv_files (process_file pd cfg file st)"

definition format_sales :: "string \<Rightarrow> (string, rat) sale \<Rightarrow> (string, string) sale" where
  \<comment> \<open>line 149\<close>
  "format_sales currency_symbol r =
     \<lparr>date = date r, region = region r, sales = currency_symbol @ fixed2 (sales r)\<rparr>"

definition final_symbol :: "config \<Rightarrow> string option \<Rightarrow> string" where
  \<comment> \<open>lines 144 and 145\<close>
  "final_symbol cfg currency_symbol =
     (case currency_symbol of None \<Rightarrow> default_currency_symbol cfg | Some s \<Rightarrow> s)"

definition process_sales_data :: "pandas \<Rightarrow> config \<Rightarrow> row csv list \<Rightarrow> (string, string) sale list option" where
  \<comment> \<open>the rows written to the output file, or \<open>None\<close> when the function returns
      without writing\<close>
  "process_sales_data pd cfg csv_files =
     (if csv_files = [] then None
      else let st = process_files pd cfg csv_files (None, []);
               currency_symbol = fst st;
               all_filtered_data = snd st
           in if all_filtered_data = [] then None
              else Some (map (format_sales (final_symbol cfg currency_symbol))
                           (concat all_filtered_data)))"

section \<open>Presentation: \<open>task_three_visualize\<close>\<close>

definition DEFAULT_CURRENCY_SYMBOL :: string where
  "DEFAULT_CURRENCY_SYMBOL = ''$''"

definition first_sales_value :: "string option list \<Rightarrow> string option" where
  \<comment> \<open>line 29: \<open>astype(str)\<close> comes before \<open>dropna\<close>, so the first cell is taken
      whatever it holds\<close>
  "first_sales_value col =
     (if dropna col = [] then None
      else case map astype_str col of [] \<Rightarrow> None | s # _ \<Rightarrow> Some s)"

definition detect_sales_symbol :: "string option \<Rightarrow> string \<times> nat" where
  \<comment> \<open>lines 31 to 37\<close>
  "detect_sales_symbol first =
     (case first of
        Some s \<Rightarrow>
          if s \<noteq> [] \<and> length s > 1 then (take 1 s, 1) else (DEFAULT_CURRENCY_SYMBOL, 0)
      | None \<Rightarrow> (DEFAULT_CURRENCY_SYMBOL, 0))"

definition clean_row :: "pandas \<Rightarrow> nat \<Rightarrow> (string, string option) sale \<Rightarrow> exn + cleaned" where
  \<comment> \<open>lines 40 to 48, for one row\<close>
  "clean_row pd slice_start_index r =
     (case to_datetime pd (date r) of
        None \<Rightarrow> Inl ValueError
      | Some d \<Rightarrow>
          Inr \<lparr>date = d, region = region r, sales = sales r,
               Sales_Value =
                 fillna0 (to_numeric pd (drop slice_start_index (astype_str (sales r))))\<rparr>)"

definition empty_frame :: dataframe where
  \<comment> \<open>\<open>pd.DataFrame({'sales': [], 'date': [], 'region': []})\<close>\<close>
  "empty_frame = \<lparr>columns = [''sales'', ''date'', ''region''], rows = []\<rparr>"

definition load_and_clean_data ::
  "pandas \<Rightarrow> (string, string option) sale csv \<Rightarrow> exn + dataframe \<times> string" where
  \<comment> \<open>the argument is what lies at \<open>file_path\<close>; \<open>NotFound\<close> is a path that does
      not exist\<close>
  "load_and_clean_data pd file =
     (case file of
        NotFound \<Rightarrow> Inr (empty_frame, DEFAULT_CURRENCY_SYMBOL)
      | EmptyData \<Rightarrow> Inl EmptyDataError
      | Unreadable \<Rightarrow> Inl ParserError
      | Frame df \<Rightarrow>
          if df = [] then Inr (empty_frame, DEFAULT_CURRENCY_SYMBOL)
          else let det = detect_sales_symbol (first_sales_value (map sales df));
                   currency_symbol = fst det;
                   slice_start_index = snd det
               in case collect (map (clean_row pd slice_start_index) df) of
                    Inl e \<Rightarrow> Inl e
                  | Inr cleaned_rows \<Rightarrow>
                      Inr (\<lparr>columns = [''sales'', ''date'', ''region'', ''Sales_Value''],
                            rows = cleaned_rows\<rparr>, currency_symbol))"

text \<open>
  \<open>groupby([...])[...].sum()\<close>: pandas keeps one accumulator per group, adds the
  rows to it in row order with Kahan compensation, and lists the groups by
  ascending key.
\<close>

definition kahan_step :: "rat \<times> rat \<Rightarrow> rat \<Rightarrow> rat \<times> rat" where
  "kahan_step acc val =
     (let sumx = fst acc; compensation = snd acc;
          y = fsub val compensation;
          t = fadd sumx y
      in (t, fsub (fsub t sumx) y))"


fun group_step :: "('k \<rightharpoonup> rat \<times> rat) \<Rightarrow> 'k \<times> rat \<Rightarrow> ('k \<rightharpoonup> rat \<times> rat)" where
  "group_step m (k, v) = m(k \<mapsto> kahan_step (case m k of None \<Rightarrow> (0, 0) | Some a \<Rightarrow> a) v)"

definition total_of :: "('k \<rightharpoonup> rat \<times> rat) \<Rightarrow> 'k \<Rightarrow> rat" where
  "total_of m k = (case m k of None \<Rightarrow> 0 | Some a \<Rightarrow> fst a)"

definition groupby_sum :: "('k::linorder \<times> rat) list \<Rightarrow> ('k \<times> rat) list" where
  "groupby_sum rs =
     (let m = foldl group_step Map.empty rs
      in map (\<lambda>k. (k, total_of m k)) (sort (remdups (map fst rs))))"

definition group_key :: "cleaned \<Rightarrow> datetime \<times> string" where
  "group_key r = (date r, region r)"

definition daily_sales :: "dataframe \<Rightarrow> exn + ((datetime \<times> string) \<times> rat) list" where
  \<comment> \<open>line 56; selecting a column the frame does not have raises \<open>KeyError\<close>\<close>
  "daily_sales df =
     (if ''Sales_Value'' \<in> set (columns df)
      then Inr (groupby_sum (map (\<lambda>r. (group_key r, Sales_Value r)) (rows df)))
      else Inl KeyError)"

definition visualize ::
  "pandas \<Rightarrow> (string, string option) sale csv \<Rightarrow> exn + ((datetime \<times> string) \<times> rat) list" where
  \<comment> \<open>lines 53 to 56, run when the module is loaded: the table handed to the chart\<close>
  "visualize pd file =
     (case load_and_clean_data pd file of
        Inl e \<Rightarrow> Inl e
      | Inr loaded \<Rightarrow> daily_sales (fst loaded))"

section \<open>The run's currency symbol, in the words of the specification\<close>



section \<open>Scenarios\<close>

text \<open>
  The configuration with the defaults of lines 35 to 37, the rows of the
  end-to-end scenarios (all of 2020-01-01, region north), and the frame that
  \<open>load_and_clean_data\<close> builds from the artifact with the sales \<open>$15.00\<close> and
  \<open>$6.00\<close>.
\<close>

definition default_config :: config where
  "default_config =
     \<lparr>data_directory = ''data'', product_filter = ''pink morsel'',
      default_currency_symbol = ''$''\<rparr>"

definition txn :: "string \<Rightarrow> string \<Rightarrow> pyval \<Rightarrow> row" where
  "txn p pr q =
     \<lparr>date = ''2020-01-01'', region = ''north'', product = p, price = Some pr,
      quantity = Some q\<rparr>"

definition sold :: "'a \<Rightarrow> (string, 'a) sale" where
  "sold s = \<lparr>date = ''2020-01-01'', region = ''north'', sales = s\<rparr>"



section \<open>Properties of the numbers\<close>

lemma rd_zero: "rd 0 = 0"
  by (simp add: rd_def)


lemma fdiv_zero: "fdiv 0 y = 0"
  by (simp add: fdiv_def rd_zero)


lemma mul64_zero: "mul64 0 q = 0" "mul64 c 0 = 0"
  by (simp_all add: mul64_def)



lemma process_file_skip:
  "process_file pd cfg EmptyData st = st"
  "process_file pd cfg NotFound st = st"
  "process_file pd cfg Unreadable st = st"
  "pink_morsel cfg df = [] \<Longrightarrow> process_file pd cfg (Frame df) st = st"
  by (simp_all add: process_file_def)


lemma collect_Inr_iff: "collect xs = Inr ys \<longleftrightarrow> xs = map Inr ys"
proof (induction xs arbitrary: ys rule: collect.induct)
  case 1
  show ?case by auto
next
  case (2 e xs)
  show ?case by auto
next
  case (3 x xs)
  show ?case
  proof (cases "collect xs")
    case (Inl e)
    with 3 have "\<And>zs. xs \<noteq> map Inr zs" by auto
    with Inl show ?thesis by (auto simp: map_eq_Cons_conv)
  next
    case (Inr zs)
    with 3 have "xs = map Inr zs" by auto
    with Inr show ?thesis by (cases ys) auto
  qed
qed

lemma collect_Inl: "Inl e \<in> set xs \<Longrightarrow> \<exists>e'. collect xs = Inl e'"
proof (cases "collect xs")
  case (Inl e')
  then show ?thesis by blast
next
  case (Inr ys)
  assume "Inl e \<in> set xs"
  moreover from Inr have "xs = map Inr ys" by (simp add: collect_Inr_iff)
  ultimately show ?thesis by auto
qed





section \<open>Properties of the ingestion\<close>





lemma process_files_no_match:
  "\<forall>f \<in> set csv_files. \<forall>df. f = Frame df \<longrightarrow> pink_morsel cfg df = [] \<Longrightarrow>
   process_files pd cfg csv_files st = st"
proof (induction csv_files arbitrary: st)
  case Nil
  show ?case by simp
next
  case (Cons f fs)
  then have "process_file pd cfg f st = st"
    by (cases f) (simp_all add: process_file_skip)
  with Cons show ?case by simp
qed

text \<open>
  C5. When no row of any input file matches the product filter (in particular
  when there are no files), \<open>process_sales_data\<close> returns normally and writes
  nothing.
\<close>

theorem no_match_no_output:
  assumes "\<forall>f \<in> set csv_files. \<forall>df. f = Frame df \<longrightarrow> pink_morsel cfg df = []"
  shows "process_sales_data pd cfg csv_files = None"
  using process_files_no_match [OF assms, of pd "(None, [])"]
  by (simp add: process_sales_data_def)


text \<open>
  C10. If a file has a row of the configured product whose quantity is a string,
  computing that row raises \<open>TypeError\<close>, the handler of line 129 skips the file
  and \<open>all_filtered_data\<close> is left as it was: none of the file's rows reach the
  output. Had the quantity of that row been missing instead, the row would have
  been computed, with sales zero.
\<close>

theorem malformed_quantity_skips_file:
  assumes "r \<in> set df" and "product r = product_filter cfg" and "quantity r = Some (PyStr s)"
  shows "sales_numeric pd k r = Inl TypeError
       \<and> snd (process_file pd cfg (Frame df) st) = snd st
       \<and> sales_numeric pd k (r\<lparr>quantity := None\<rparr>) = Inr 0"
proof -
  have 1: "sales_numeric pd k r = Inl TypeError" for k
    using assms(3) by (simp add: sales_numeric_def)
  have in_pm: "r \<in> set (pink_morsel cfg df)"
    using assms(1,2) by (simp add: pink_morsel_def)
  have "Inl TypeError \<in> set (map (summary_row pd k) (pink_morsel cfg df))" for k
  proof -
    have "summary_row pd k r = Inl TypeError" by (simp add: summary_row_def 1)
    with in_pm show ?thesis by force
  qed
  then have "\<exists>e. collect (map (summary_row pd k) (pink_morsel cfg df)) = Inl e" for k
    by (rule collect_Inl)
  then obtain e where
    "collect (map (summary_row pd (snd (slicing cfg (fst st) (pink_morsel cfg df))))
       (pink_morsel cfg df)) = Inl e"
    by blast
  then have 2: "snd (process_file pd cfg (Frame df) st) = snd st"
    by (simp add: process_file_def Let_def)
  have 3: "sales_numeric pd k (r\<lparr>quantity := None\<rparr>) = Inr 0"
    by (simp add: sales_numeric_def mul64_zero fdiv_zero rd_zero)
  from 1 2 3 show ?thesis by simp
qed





section \<open>Properties of the presentation\<close>







text \<open>
  C3, as stated, fails: on the one-character first value \<open>#\<close> the presentation
  keeps the default symbol and slices nothing, while the ingestion takes \<open>#\<close> as
  the symbol and slices one character.
\<close>

theorem detection_differs_on_one_character:
  "detect_sales_symbol (Some ''#'') = (''$'', 0)
   \<and> detect_symbol DEFAULT_CURRENCY_SYMBOL (Some ''#'') = (''#'', 1)
   \<and> detect_sales_symbol (Some ''#'') \<noteq> detect_symbol DEFAULT_CURRENCY_SYMBOL (Some ''#'')"
  by (simp add: detect_sales_symbol_def detect_symbol_def DEFAULT_CURRENCY_SYMBOL_def)

text \<open>
  C3, amended. The detection of the presentation and that of the ingestion (run
  with the default symbol of the presentation) agree on every first value of at
  least two characters, where the first character is the symbol and one
  character is sliced, and on a missing first value. On a first value of exactly
  one character the presentation keeps the default symbol and slices nothing,
  while the ingestion takes the character as the symbol and slices it.
\<close>

theorem detection_agrees_from_two_characters:
  "(2 \<le> length s \<longrightarrow>
      detect_sales_symbol (Some s) = detect_symbol DEFAULT_CURRENCY_SYMBOL (Some s)
      \<and> detect_sales_symbol (Some s) = (take 1 s, 1))
   \<and> (length t = 1 \<longrightarrow>
      detect_sales_symbol (Some t) = (DEFAULT_CURRENCY_SYMBOL, 0)
      \<and> detect_symbol default_symbol (Some t) = (t, 1))
   \<and> detect_sales_symbol None = detect_symbol DEFAULT_CURRENCY_SYMBOL None"
  by (auto simp: detect_sales_symbol_def detect_symbol_def)

theorem detection_agrees_from_two_characters_witness:
  "2 \<le> length ''$15.00'' \<and> length ''#'' = 1
   \<and> detect_sales_symbol (Some ''$15.00'') = detect_symbol DEFAULT_CURRENCY_SYMBOL (Some ''$15.00'')
   \<and> detect_sales_symbol (Some ''$15.00'') = (''$'', 1)
   \<and> detect_sales_symbol (Some ''#'') = (DEFAULT_CURRENCY_SYMBOL, 0)
   \<and> detect_symbol ''$'' (Some ''#'') = (''#'', 1)"
proof -
  have long: "2 \<le> length ''$15.00''" and short: "length ''#'' = 1"
    by simp_all
  from detection_agrees_from_two_characters [of "''$15.00''" "''#''" "''$''"] long short
  show ?thesis by auto
qed

text \<open>
  C9. With the artifact absent, \<open>load_and_clean_data\<close> returns the empty frame and
  the default symbol, but that frame has no \<open>Sales_Value\<close> column, so the
  aggregation of line 56 raises \<open>KeyError\<close> and no chart is built; the same
  happens for an artifact with a header and no rows. An artifact of zero bytes
  makes \<open>pd.read_csv\<close> raise \<open>EmptyDataError\<close> inside \<open>load_and_clean_data\<close>, which
  does not catch it.
\<close>

theorem missing_artifact_fails:
  "load_and_clean_data pd NotFound = Inr (empty_frame, DEFAULT_CURRENCY_SYMBOL)
   \<and> daily_sales empty_frame = Inl KeyError
   \<and> visualize pd NotFound = Inl KeyError
   \<and> visualize pd (Frame []) = Inl KeyError
   \<and> load_and_clean_data pd EmptyData = Inl EmptyDataError
   \<and> visualize pd EmptyData = Inl EmptyDataError"
  by (simp add: visualize_def load_and_clean_data_def daily_sales_def empty_frame_def)

section \<open>The scenarios, run\<close>

text \<open>
  C1. The price \<open>$0.29\<close> with quantity 1: the decimal 0.29 times 100 is the
  integer 29, which every rounding rule leaves at 29. The nearest double to 0.29
  times 100.0 is a double just below 29, \<open>astype(int)\<close> truncates it to 28 cents,
  and the row is written as \<open>$0.28\<close>.
\<close>

theorem cents_truncated_not_rounded:
  "parse_decimal ''0.29'' = Some (29 / 100)
   \<and> to_numeric plain ''0.29'' = Some (5224175567749775 / 2 ^ 54)
   \<and> price_cents plain 1 (Some ''$0.29'') = 28
   \<and> process_sales_data plain default_config [Frame [txn ''pink morsel'' ''$0.29'' (PyInt 1)]]
       = Some [sold ''$0.28'']"
  by (intro conjI; code_simp)

text \<open>
  C2. When the detected symbol equals the configured default, line 93 gives every
  later file the slice index 0. With the default \<open>$\<close> and two files whose prices
  start with \<open>$\<close>, the first file is sliced at 1 and yields \<open>$15.00\<close>; the second
  is not sliced, its price \<open>$2.00\<close> does not parse, and its row is written as
  \<open>$0.00\<close>. The same two rows in one file yield \<open>$15.00\<close> and \<open>$6.00\<close>.
\<close>

theorem later_files_not_stripped:
  "slicing cfg (Some (default_currency_symbol cfg)) pink_morsel_df
     = (Some (default_currency_symbol cfg), 0)
   \<and> fst (process_file plain default_config (Frame [txn ''pink morsel'' ''$3.00'' (PyInt 5)]) (None, []))
     = Some ''$''
   \<and> slicing default_config (Some ''$'') [txn ''pink morsel'' ''$2.00'' (PyInt 3)] = (Some ''$'', 0)
   \<and> process_sales_data plain default_config
        [Frame [txn ''pink morsel'' ''$3.00'' (PyInt 5)],
         Frame [txn ''pink morsel'' ''$2.00'' (PyInt 3)]]
       = Some [sold ''$15.00'', sold ''$0.00'']
   \<and> process_sales_data plain default_config
        [Frame [txn ''pink morsel'' ''$3.00'' (PyInt 5), txn ''pink morsel'' ''$2.00'' (PyInt 3)]]
       = Some [sold ''$15.00'', sold ''$6.00'']"
proof (intro conjI)
  show "slicing cfg (Some (default_currency_symbol cfg)) pink_morsel_df
     = (Some (default_currency_symbol cfg), 0)"
    by (simp add: slicing_def)
qed code_simp+

theorem no_match_no_output_witness:
  "pink_morsel default_config [txn ''choc'' ''$5.00'' (PyInt 2)] = []
   \<and> process_sales_data plain default_config [Frame [txn ''choc'' ''$5.00'' (PyInt 2)], EmptyData] = None"
proof -
  have none: "pink_morsel default_config [txn ''choc'' ''$5.00'' (PyInt 2)] = []"
    by (simp add: pink_morsel_def default_config_def txn_def)
  then have "\<forall>f \<in> set [Frame [txn ''choc'' ''$5.00'' (PyInt 2)], EmptyData].
               \<forall>df. f = Frame df \<longrightarrow> pink_morsel default_config df = []"
    by simp
  from no_match_no_output [OF this] none show ?thesis by simp
qed

theorem malformed_quantity_skips_file_witness:
  "sales_numeric plain 1 (txn ''pink morsel'' ''$3.00'' (PyStr ''five'')) = Inl TypeError
   \<and> snd (process_file plain default_config
            (Frame [txn ''pink morsel'' ''$2.00'' (PyInt 3), txn ''pink morsel'' ''$3.00'' (PyStr ''five'')])
            (None, [])) = []
   \<and> sales_numeric plain 1 ((txn ''pink morsel'' ''$3.00'' (PyStr ''five''))\<lparr>quantity := None\<rparr>) = Inr 0"
proof -
  let ?r = "txn ''pink morsel'' ''$3.00'' (PyStr ''five'')"
  have 1: "?r \<in> set [txn ''pink morsel'' ''$2.00'' (PyInt 3), ?r]" by simp
  have 2: "product ?r = product_filter default_config"
    by (simp add: txn_def default_config_def)
  have 3: "quantity ?r = Some (PyStr ''five'')"
    by (simp add: txn_def)
  from malformed_quantity_skips_file [OF 1 2 3, of plain 1 "(None, [])"]
  show ?thesis by simp
qed




end
